theory Spec2Isabelle
  imports Main "HOL-Library.Sublist"
begin

section \<open>Pathnames\<close>

text \<open>
  \<^verbatim>\<open>SetIcon\<close> builds its first two candidates with \<^verbatim>\<open>std::filesystem::path\<close>:
  \<^verbatim>\<open>path(argv0).parent_path() / "icon.png"\<close>. That class belongs to the C++ standard
  library, not to this repository, so the three operations the source uses are written
  here after their description in the C++ standard ([fs.path.decompose], [fs.path.append]),
  for the POSIX pathname format: the only directory separator is the slash, there is no
  root name, and a path is absolute exactly when it has a root directory. A path is
  represented by its native pathname string, which is also what the implicit conversion
  to \<^verbatim>\<open>std::string\<close> in the initialiser list of \<^verbatim>\<open>possible_paths\<close> yields.
\<close>

definition is_dir_sep :: "char \<Rightarrow> bool" where
  "is_dir_sep c = (c = CHR ''/'')"

text \<open>The root directory is the leading run of separators; the relative path is the rest.\<close>

definition has_root_directory :: "string \<Rightarrow> bool" where
  "has_root_directory p = (case p of [] \<Rightarrow> False | c # _ \<Rightarrow> is_dir_sep c)"

definition relative_path :: "string \<Rightarrow> string" where
  "relative_path p = dropWhile is_dir_sep p"

definition has_relative_path :: "string \<Rightarrow> bool" where
  "has_relative_path p = (relative_path p \<noteq> [])"

text \<open>
  The filename is the last element of the path: the characters after the last separator.
  It is empty for the empty path, for a bare root directory and for a path that ends in
  a separator.
\<close>

definition filename :: "string \<Rightarrow> string" where
  "filename p = rev (takeWhile (\<lambda>c. \<not> is_dir_sep c) (rev p))"

definition has_filename :: "string \<Rightarrow> bool" where
  "has_filename p = (filename p \<noteq> [])"

definition remove_filename :: "string \<Rightarrow> string" where
  "remove_filename p = rev (dropWhile (\<lambda>c. \<not> is_dir_sep c) (rev p))"

text \<open>
  \<^verbatim>\<open>parent_path()\<close>: the path itself when it has no relative path; otherwise the longest
  prefix of the pathname that has one element fewer. Dropping the last element leaves
  either nothing, or the root directory, or a directory name followed by separators
  that are not part of the parent. When the parent is a root directory written with
  several slashes, as for \<^verbatim>\<open>//prog\<close>, the longest prefix keeps them all; the GNU
  library keeps the first one only there. The two pathnames name the same directory.
\<close>

definition parent_path :: "string \<Rightarrow> string" where
  "parent_path p =
     (if \<not> has_relative_path p then p
      else let d = remove_filename p
           in if has_relative_path d then rev (dropWhile is_dir_sep (rev d)) else d)"

text \<open>
  \<^verbatim>\<open>operator/\<close>: an absolute right operand replaces the left one; otherwise a separator is
  inserted exactly when the left operand has a filename, and the right operand is
  appended.
\<close>

definition path_append :: "string \<Rightarrow> string \<Rightarrow> string" where
  "path_append p q =
     (if has_root_directory q then q
      else if has_filename p then p @ ''/'' @ q
      else p @ q)"


section \<open>The world \<^verbatim>\<open>SetIcon\<close> acts on\<close>

text \<open>
  \<^verbatim>\<open>SetIcon\<close> returns nothing; all it does is talk to three collaborators. The world
  holds the filesystem and the sequence of effects performed so far, oldest first:
  existence queries, log records and calls of the icon helper.

  The filesystem is given by the files that are there and by the pathnames that cannot
  be resolved at all: a symbolic link that loops, a name that is too long, a directory that
  may not be searched. The status of a pathname is what the status query of the standard
  library finds for it.
\<close>

datatype severity = INFO | WARNING

datatype effect =
    FsExists string
  | LogMsg severity string
  | IconHelper string

datatype fs_status = Present | NotFound | StatusFailure

datatype exception = filesystem_error string

record world =
  files :: "string set"
  unresolvable :: "string set"
  trace :: "effect list"

definition status :: "world \<Rightarrow> string \<Rightarrow> fs_status" where
  "status w path =
     (if path \<in> unresolvable w then StatusFailure
      else if path \<in> files w then Present
      else NotFound)"

text \<open>
  The source calls \<^verbatim>\<open>std::filesystem::exists(path)\<close> with one argument. That overload
  answers true or false when the status query finds the file or finds it absent, and
  throws \<^verbatim>\<open>filesystem_error\<close> when the query fails for any other reason. A result is
  therefore either \<open>Inl\<close>, the exception thrown together with the world at that moment,
  or \<open>Inr\<close>, the value returned together with the world.
\<close>

definition fs_exists :: "string \<Rightarrow> world \<Rightarrow> exception \<times> world + bool \<times> world" where
  "fs_exists path w =
     (let w' = w\<lparr>trace := trace w @ [FsExists path]\<rparr>
      in case status w path of
           Present \<Rightarrow> Inr (True, w')
         | NotFound \<Rightarrow> Inr (False, w')
         | StatusFailure \<Rightarrow> Inl (filesystem_error path, w'))"

definition LOG :: "severity \<Rightarrow> string \<Rightarrow> world \<Rightarrow> world" where
  "LOG sev msg w = w\<lparr>trace := trace w @ [LogMsg sev msg]\<rparr>"

text \<open>
  Modelled from the spec: \<^verbatim>\<open>SetIconHelper\<close> is declared in \<^verbatim>\<open>resources/icon_helper.h\<close>
  and its body is not part of the sources at hand. The specification describes it as
  the opaque, platform-specific icon-application routine \<^verbatim>\<open>ApplyIcon(path) -> void\<close>;
  the model records that it was called, and with which path.
\<close>

definition SetIconHelper :: "string \<Rightarrow> world \<Rightarrow> world" where
  "SetIconHelper icon_path w = w\<lparr>trace := trace w @ [IconHelper icon_path]\<rparr>"

section \<open>\<^verbatim>\<open>SetIcon\<close>\<close>

definition possible_paths :: "string \<Rightarrow> string list" where
  "possible_paths argv0 =
     [ path_append (parent_path argv0) ''icon.png'',
       path_append (path_append (parent_path argv0) ''resources'') ''icon.png'',
       ''resources/icon.png'',
       ''icon.png'' ]"

text \<open>
  The range-for loop over \<^verbatim>\<open>possible_paths\<close>. \<^verbatim>\<open>icon_path\<close> is the variable declared
  before the loop; it is assigned, and the loop left, at the first path that exists.
  Nothing in \<^verbatim>\<open>SetIcon\<close> catches an exception, so one thrown by a query leaves the loop
  and the function.
\<close>

fun probe_loop :: "string list \<Rightarrow> string \<Rightarrow> world \<Rightarrow> exception \<times> world + string \<times> world" where
  "probe_loop [] icon_path w = Inr (icon_path, w)"
| "probe_loop (path # rest) icon_path w =
     (case fs_exists path w of
        Inl thrown \<Rightarrow> Inl thrown
      | Inr (found, w') \<Rightarrow>
          if found then Inr (path, w') else probe_loop rest icon_path w')"

definition SetIcon :: "string \<Rightarrow> world \<Rightarrow> exception \<times> world + world" where
  "SetIcon argv0 w =
     (case probe_loop (possible_paths argv0) [] w of
        Inl thrown \<Rightarrow> Inl thrown
      | Inr (icon_path, w') \<Rightarrow>
          if icon_path = []
          then Inr (LOG WARNING ''Icon file not found in any of the expected locations'' w')
          else Inr (SetIconHelper icon_path (LOG INFO (''Using icon from: '' @ icon_path) w')))"

text \<open>
  The world a call leaves behind, whether it returned or threw, and what the call added
  to the effects already performed: the observable behaviour of the call.
\<close>

definition world_after :: "exception \<times> world + world \<Rightarrow> world" where
  "world_after r = (case r of Inl (e, w) \<Rightarrow> w | Inr w \<Rightarrow> w)"

definition performed :: "string \<Rightarrow> world \<Rightarrow> effect list" where
  "performed argv0 w = drop (length (trace w)) (trace (world_after (SetIcon argv0 w)))"

section \<open>Facts about pathnames\<close>

lemmas path_defs =
  possible_paths_def parent_path_def path_append_def has_relative_path_def relative_path_def
  remove_filename_def has_filename_def filename_def has_root_directory_def is_dir_sep_def

lemma has_filename_iff:
  "has_filename p \<longleftrightarrow> p \<noteq> [] \<and> \<not> is_dir_sep (last p)"
proof (cases p rule: rev_cases)
  case Nil
  then show ?thesis by (simp add: has_filename_def filename_def)
next
  case (snoc ys y)
  then show ?thesis by (simp add: has_filename_def filename_def)
qed

lemma path_append_relative:
  "\<not> has_root_directory q \<Longrightarrow>
   path_append p q = (if p = [] \<or> is_dir_sep (last p) then p else p @ ''/'') @ q"
  by (simp add: path_append_def has_filename_iff)

lemma relative_literals:
  "\<not> has_root_directory ''icon.png''" "\<not> has_root_directory ''resources''"
  by (simp_all add: has_root_directory_def is_dir_sep_def)

text \<open>A hint without any separator has the empty parent, and only such a hint has.\<close>

lemma no_sep_parent_path:
  assumes "CHR ''/'' \<notin> set p"
  shows "parent_path p = []"
proof -
  from assms have all: "\<forall>c\<in>set p. \<not> is_dir_sep c"
    by (auto simp: is_dir_sep_def)
  then have "remove_filename p = []"
    by (simp add: remove_filename_def)
  moreover have "relative_path [] = []"
    by (simp add: relative_path_def)
  moreover from all have "relative_path p = p"
    by (cases p) (simp_all add: relative_path_def)
  ultimately show ?thesis
    by (simp add: parent_path_def has_relative_path_def)
qed

lemma sep_parent_path:
  assumes "CHR ''/'' \<in> set p"
  shows "parent_path p \<noteq> []"
proof (cases "has_relative_path p")
  case False
  with assms show ?thesis by (auto simp: parent_path_def)
next
  case True
  define d where "d = remove_filename p"
  from assms have "d \<noteq> []"
    by (auto simp: d_def remove_filename_def is_dir_sep_def dropWhile_eq_Nil_conv)
  show ?thesis
  proof (cases "has_relative_path d")
    case False
    with True \<open>d \<noteq> []\<close> show ?thesis by (simp add: parent_path_def d_def Let_def)
  next
    case rel: True
    then obtain c where "c \<in> set d" "\<not> is_dir_sep c"
      by (auto simp: has_relative_path_def relative_path_def dropWhile_eq_Nil_conv)
    then have "dropWhile is_dir_sep (rev d) \<noteq> []"
      by (auto simp: dropWhile_eq_Nil_conv)
    with True rel show ?thesis by (simp add: parent_path_def d_def Let_def)
  qed
qed

lemma parent_path_empty_iff:
  "parent_path p = [] \<longleftrightarrow> CHR ''/'' \<notin> set p"
  using no_sep_parent_path sep_parent_path by blast

lemma possible_paths_suffix:
  "p \<in> set (possible_paths argv0) \<Longrightarrow> suffix ''icon.png'' p"
  by (auto simp: possible_paths_def path_append_relative relative_literals suffix_def)

lemma possible_paths_nonempty:
  "p \<in> set (possible_paths argv0) \<Longrightarrow> p \<noteq> []"
  using possible_paths_suffix [of p argv0] by (auto simp: suffix_def)

section \<open>The probe loop and the three outcomes of \<^verbatim>\<open>SetIcon\<close>\<close>

lemma status_trace [simp]: "status (w\<lparr>trace := t\<rparr>) = status w"
  by (simp add: status_def fun_eq_iff)

text \<open>
  The loop runs up to the first path whose query does not answer false. When there is
  none, \<^verbatim>\<open>icon_path\<close> stays as it was; when that path is present, it is selected; when
  its query fails, the exception leaves the loop.
\<close>

lemma probe_loop_find:
  "probe_loop ps ip w =
     (case find (\<lambda>p. status w p \<noteq> NotFound) ps of
        None \<Rightarrow> Inr (ip, w\<lparr>trace := trace w @ map FsExists ps\<rparr>)
      | Some p \<Rightarrow>
          (if status w p = Present
           then Inr (p, w\<lparr>trace := trace w @
                        map FsExists (takeWhile (\<lambda>q. status w q = NotFound) ps) @ [FsExists p]\<rparr>)
           else Inl (filesystem_error p, w\<lparr>trace := trace w @
                        map FsExists (takeWhile (\<lambda>q. status w q = NotFound) ps) @ [FsExists p]\<rparr>)))"
proof (induction ps arbitrary: w)
  case Nil
  show ?case by simp
next
  case (Cons a ps)
  show ?case
  proof (cases "status w a")
    case Present
    then show ?thesis by (simp add: fs_exists_def)
  next
    case NotFound
    then show ?thesis
      by (simp add: fs_exists_def Cons.IH split: option.split)
  next
    case StatusFailure
    then show ?thesis by (simp add: fs_exists_def)
  qed
qed

lemma find_Some_prefix:
  "find P xs = Some x \<Longrightarrow> prefix (takeWhile (\<lambda>q. \<not> P q) xs @ [x]) xs"
  by (induction xs) (auto split: if_splits)

lemma find_first_at:
  assumes "p \<in> set xs" and "Q p" and "\<forall>q\<in>set (takeWhile (\<lambda>q. q \<noteq> p) xs). \<not> Q q"
  shows "find Q xs = Some p \<and> takeWhile (\<lambda>q. \<not> Q q) xs = takeWhile (\<lambda>q. q \<noteq> p) xs"
  using assms by (induction xs) auto

lemma SetIcon_not_found:
  assumes "find (\<lambda>p. status w p \<noteq> NotFound) (possible_paths argv0) = None"
  shows "SetIcon argv0 w =
           Inr (w\<lparr>trace := trace w @ map FsExists (possible_paths argv0) @
                  [LogMsg WARNING ''Icon file not found in any of the expected locations'']\<rparr>)"
  using assms by (simp add: SetIcon_def probe_loop_find LOG_def)

lemma SetIcon_found:
  assumes "find (\<lambda>p. status w p \<noteq> NotFound) (possible_paths argv0) = Some p"
      and "status w p = Present"
  shows "SetIcon argv0 w =
           Inr (w\<lparr>trace := trace w @
                  map FsExists (takeWhile (\<lambda>q. status w q = NotFound) (possible_paths argv0)) @
                  [FsExists p, LogMsg INFO (''Using icon from: '' @ p), IconHelper p]\<rparr>)"
proof -
  from assms(1) have "p \<in> set (possible_paths argv0)"
    by (auto simp: find_Some_iff)
  then have "p \<noteq> []" by (rule possible_paths_nonempty)
  with assms show ?thesis
    by (simp add: SetIcon_def probe_loop_find LOG_def SetIconHelper_def)
qed

lemma SetIcon_thrown:
  assumes "find (\<lambda>p. status w p \<noteq> NotFound) (possible_paths argv0) = Some p"
      and "status w p \<noteq> Present"
  shows "SetIcon argv0 w =
           Inl (filesystem_error p,
                w\<lparr>trace := trace w @
                  map FsExists (takeWhile (\<lambda>q. status w q = NotFound) (possible_paths argv0)) @
                  [FsExists p]\<rparr>)"
  using assms by (simp add: SetIcon_def probe_loop_find)

text \<open>The same three outcomes, as what the call performed.\<close>

lemma performed_cases:
  "performed argv0 w =
     (case find (\<lambda>p. status w p \<noteq> NotFound) (possible_paths argv0) of
        None \<Rightarrow> map FsExists (possible_paths argv0) @
                 [LogMsg WARNING ''Icon file not found in any of the expected locations'']
      | Some p \<Rightarrow>
          map FsExists (takeWhile (\<lambda>q. status w q = NotFound) (possible_paths argv0)) @
          (if status w p = Present
           then [FsExists p, LogMsg INFO (''Using icon from: '' @ p), IconHelper p]
           else [FsExists p]))"
proof (cases "find (\<lambda>p. status w p \<noteq> NotFound) (possible_paths argv0)")
  case None
  then show ?thesis
    by (simp add: performed_def world_after_def SetIcon_not_found)
next
  case (Some p)
  show ?thesis
  proof (cases "status w p = Present")
    case True
    with Some show ?thesis
      by (simp add: performed_def world_after_def SetIcon_found)
  next
    case False
    with Some show ?thesis
      by (simp add: performed_def world_after_def SetIcon_thrown)
  qed
qed

lemma world_after_SetIcon:
  "world_after (SetIcon argv0 w) = w\<lparr>trace := trace w @ performed argv0 w\<rparr>"
proof (cases "find (\<lambda>p. status w p \<noteq> NotFound) (possible_paths argv0)")
  case None
  then show ?thesis
    by (simp add: performed_cases world_after_def SetIcon_not_found)
next
  case (Some p)
  show ?thesis
  proof (cases "status w p = Present")
    case True
    with Some show ?thesis
      by (simp add: performed_cases world_after_def SetIcon_found)
  next
    case False
    with Some show ?thesis
      by (simp add: performed_cases world_after_def SetIcon_thrown)
  qed
qed

lemma performed_status_only:
  assumes "status w1 = status w2"
  shows "performed argv0 w1 = performed argv0 w2"
  using assms by (simp add: performed_cases split: option.split)

lemma thrown_status_only:
  assumes "status w1 = status w2"
  shows "isl (SetIcon argv0 w1) = isl (SetIcon argv0 w2)"
proof (cases "find (\<lambda>p. status w2 p \<noteq> NotFound) (possible_paths argv0)")
  case None
  with assms show ?thesis by (simp add: SetIcon_not_found)
next
  case (Some p)
  show ?thesis
  proof (cases "status w2 p = Present")
    case True
    with Some assms show ?thesis by (simp add: SetIcon_found)
  next
    case False
    with Some assms show ?thesis by (simp add: SetIcon_thrown)
  qed
qed

lemma same_filesystem_status:
  "files w1 = files w2 \<Longrightarrow> unresolvable w1 = unresolvable w2 \<Longrightarrow> status w1 = status w2"
  by (simp add: status_def fun_eq_iff)

section \<open>The claims\<close>

lemmas world_defs = SetIcon_def fs_exists_def status_def LOG_def SetIconHelper_def

text \<open>
  C1. For every hint the candidate list has exactly four entries, in this order: the
  parent directory of the hint joined with \<^verbatim>\<open>icon.png\<close>, the parent directory joined with
  \<^verbatim>\<open>resources\<close> and \<^verbatim>\<open>icon.png\<close>, then the two literals \<^verbatim>\<open>resources/icon.png\<close> and
  \<^verbatim>\<open>icon.png\<close>. The second conjunct spells the joins out on the strings: a separator is
  put after the parent directory unless that is empty or already ends in one.
\<close>

theorem possible_paths_four_candidates:
  "possible_paths argv0 =
     [ path_append (parent_path argv0) ''icon.png'',
       path_append (path_append (parent_path argv0) ''resources'') ''icon.png'',
       ''resources/icon.png'',
       ''icon.png'' ]
   \<and> possible_paths argv0 =
     (let parentDir = parent_path argv0;
          dir = (if parentDir = [] \<or> is_dir_sep (last parentDir) then parentDir
                 else parentDir @ ''/'')
      in [dir @ ''icon.png'', dir @ ''resources/icon.png'', ''resources/icon.png'', ''icon.png''])
   \<and> length (possible_paths argv0) = 4"
  by (simp add: possible_paths_def path_append_relative relative_literals Let_def is_dir_sep_def)

text \<open>The list for a program installed under \<^verbatim>\<open>/opt/app/bin\<close>.\<close>

theorem possible_paths_four_candidates_witness:
  "possible_paths ''/opt/app/bin/myprog'' =
     [ ''/opt/app/bin/icon.png'', ''/opt/app/bin/resources/icon.png'',
       ''resources/icon.png'', ''icon.png'' ]"
  using possible_paths_four_candidates [of "''/opt/app/bin/myprog''"]
  by (simp add: path_defs)

text \<open>
  C2. First match wins: when the hint has a non-empty parent directory and
  \<^verbatim>\<open>icon.png\<close> exists in it, the loop selects that path after a single query, and the
  call returns after logging it at INFO level and handing it to the icon helper,
  whatever the status of the other candidates.
\<close>

theorem SetIcon_first_match_wins:
  assumes "parent_path argv0 \<noteq> []"
      and "status w (path_append (parent_path argv0) ''icon.png'') = Present"
  shows "probe_loop (possible_paths argv0) [] w =
           Inr (path_append (parent_path argv0) ''icon.png'',
                w\<lparr>trace := trace w @
                  [FsExists (path_append (parent_path argv0) ''icon.png'')]\<rparr>)
       \<and> SetIcon argv0 w =
           Inr (w\<lparr>trace := trace w @
             [ FsExists (path_append (parent_path argv0) ''icon.png''),
               LogMsg INFO (''Using icon from: '' @ path_append (parent_path argv0) ''icon.png''),
               IconHelper (path_append (parent_path argv0) ''icon.png'') ]\<rparr>)"
proof -
  from assms(2)
  have f: "find (\<lambda>p. status w p \<noteq> NotFound) (possible_paths argv0) =
             Some (path_append (parent_path argv0) ''icon.png'')"
    by (simp add: possible_paths_def)
  have t: "takeWhile (\<lambda>q. status w q = NotFound) (possible_paths argv0) = []"
    using assms(2) by (simp add: possible_paths_def)
  show ?thesis
    using assms(2) by (simp add: probe_loop_find f SetIcon_found [OF f] t)
qed

text \<open>Three of the four candidates exist; the one beside the executable is taken.\<close>

theorem SetIcon_first_match_wins_witness:
  "SetIcon ''/opt/app/bin/myprog''
     \<lparr>files = {''/opt/app/bin/icon.png'', ''resources/icon.png'', ''icon.png''},
      unresolvable = {}, trace = []\<rparr> =
   Inr \<lparr>files = {''/opt/app/bin/icon.png'', ''resources/icon.png'', ''icon.png''},
        unresolvable = {},
        trace = [ FsExists ''/opt/app/bin/icon.png'',
                  LogMsg INFO ''Using icon from: /opt/app/bin/icon.png'',
                  IconHelper ''/opt/app/bin/icon.png'' ]\<rparr>"
  using SetIcon_first_match_wins [of "''/opt/app/bin/myprog''"
       "\<lparr>files = {''/opt/app/bin/icon.png'', ''resources/icon.png'', ''icon.png''},
         unresolvable = {}, trace = []\<rparr>"]
  by (simp add: path_defs status_def)

text \<open>
  C3, as the specification states it, fails. The hint is \<^verbatim>\<open>myprog\<close>, and \<^verbatim>\<open>icon.png\<close> in
  the working directory is a symbolic link to itself. None of the candidates exists, yet
  the call does not return: the first query throws, and no diagnostic is emitted.
\<close>

theorem SetIcon_none_found_counterexample:
  "possible_paths ''myprog'' =
     [''icon.png'', ''resources/icon.png'', ''resources/icon.png'', ''icon.png'']
   \<and> status \<lparr>files = {}, unresolvable = {''icon.png''}, trace = []\<rparr> ''icon.png'' \<noteq> Present
   \<and> status \<lparr>files = {}, unresolvable = {''icon.png''}, trace = []\<rparr> ''resources/icon.png''
         \<noteq> Present
   \<and> SetIcon ''myprog'' \<lparr>files = {}, unresolvable = {''icon.png''}, trace = []\<rparr> =
       Inl (filesystem_error ''icon.png'',
            \<lparr>files = {}, unresolvable = {''icon.png''}, trace = [FsExists ''icon.png'']\<rparr>)"
  by (simp add: world_defs path_defs)

text \<open>
  C3, amended. When the existence check answers false for each of the four candidates,
  the call returns, with all four queries made and exactly one log record after them,
  at WARNING level; there is no INFO record and the icon helper is not called.
\<close>

theorem SetIcon_none_found:
  assumes "\<forall>p\<in>set (possible_paths argv0). status w p = NotFound"
  shows "SetIcon argv0 w =
           Inr (w\<lparr>trace := trace w @ map FsExists (possible_paths argv0) @
                  [LogMsg WARNING ''Icon file not found in any of the expected locations'']\<rparr>)"
proof -
  from assms have f: "find (\<lambda>p. status w p \<noteq> NotFound) (possible_paths argv0) = None"
    by (simp add: find_None_iff)
  show ?thesis
    by (rule SetIcon_not_found [OF f])
qed

text \<open>An icon exists, but one directory too high: nothing is found.\<close>

theorem SetIcon_none_found_witness:
  "SetIcon ''/opt/app/bin/myprog''
     \<lparr>files = {''/opt/app/icon.png''}, unresolvable = {}, trace = []\<rparr> =
   Inr \<lparr>files = {''/opt/app/icon.png''}, unresolvable = {},
        trace = [ FsExists ''/opt/app/bin/icon.png'',
                  FsExists ''/opt/app/bin/resources/icon.png'',
                  FsExists ''resources/icon.png'', FsExists ''icon.png'',
                  LogMsg WARNING ''Icon file not found in any of the expected locations'' ]\<rparr>"
  using SetIcon_none_found [of "''/opt/app/bin/myprog''"
          "\<lparr>files = {''/opt/app/icon.png''}, unresolvable = {}, trace = []\<rparr>"]
  by (simp add: path_defs status_def)

text \<open>
  C4, as the specification states it, fails. The hint is \<^verbatim>\<open>/srv/app/prog\<close>;
  \<^verbatim>\<open>/srv/app/icon.png\<close> is a symbolic link to itself and \<^verbatim>\<open>icon.png\<close> in the working
  directory is the only candidate that exists. The first query throws: no INFO record
  is emitted and the icon helper is not called.
\<close>

theorem SetIcon_single_candidate_counterexample:
  "possible_paths ''/srv/app/prog'' =
     [ ''/srv/app/icon.png'', ''/srv/app/resources/icon.png'',
       ''resources/icon.png'', ''icon.png'' ]
   \<and> status \<lparr>files = {''icon.png''}, unresolvable = {''/srv/app/icon.png''}, trace = []\<rparr>
         ''/srv/app/icon.png'' \<noteq> Present
   \<and> status \<lparr>files = {''icon.png''}, unresolvable = {''/srv/app/icon.png''}, trace = []\<rparr>
         ''/srv/app/resources/icon.png'' \<noteq> Present
   \<and> status \<lparr>files = {''icon.png''}, unresolvable = {''/srv/app/icon.png''}, trace = []\<rparr>
         ''resources/icon.png'' \<noteq> Present
   \<and> status \<lparr>files = {''icon.png''}, unresolvable = {''/srv/app/icon.png''}, trace = []\<rparr>
         ''icon.png'' = Present
   \<and> SetIcon ''/srv/app/prog''
         \<lparr>files = {''icon.png''}, unresolvable = {''/srv/app/icon.png''}, trace = []\<rparr> =
       Inl (filesystem_error ''/srv/app/icon.png'',
            \<lparr>files = {''icon.png''}, unresolvable = {''/srv/app/icon.png''},
             trace = [FsExists ''/srv/app/icon.png'']\<rparr>)"
  by (simp add: world_defs path_defs)

text \<open>
  C4, amended. When exactly one candidate path \<open>p\<close> exists and the existence check
  answers false for every candidate in front of it, the call queries those candidates
  and \<open>p\<close>, then emits exactly one log record, at INFO level and naming \<open>p\<close>, calls the
  icon helper exactly once, with \<open>p\<close>, and returns; there is no WARNING record.
\<close>

theorem SetIcon_single_candidate:
  assumes "p \<in> set (possible_paths argv0)" and "status w p = Present"
      and "\<forall>q\<in>set (possible_paths argv0). status w q = Present \<longrightarrow> q = p"
      and "\<forall>q\<in>set (takeWhile (\<lambda>q. q \<noteq> p) (possible_paths argv0)). status w q = NotFound"
  shows "SetIcon argv0 w =
           Inr (w\<lparr>trace := trace w @
             map FsExists (takeWhile (\<lambda>q. q \<noteq> p) (possible_paths argv0)) @
             [FsExists p, LogMsg INFO (''Using icon from: '' @ p), IconHelper p]\<rparr>)"
proof -
  have "find (\<lambda>q. status w q \<noteq> NotFound) (possible_paths argv0) = Some p
      \<and> takeWhile (\<lambda>q. \<not> status w q \<noteq> NotFound) (possible_paths argv0) =
        takeWhile (\<lambda>q. q \<noteq> p) (possible_paths argv0)"
    using assms(1,2,4) by (intro find_first_at) auto
  with assms(2) show ?thesis
    by (simp add: SetIcon_found)
qed

text \<open>Only the third candidate exists.\<close>

theorem SetIcon_single_candidate_witness:
  "SetIcon ''/opt/app/bin/myprog''
     \<lparr>files = {''resources/icon.png''}, unresolvable = {}, trace = []\<rparr> =
   Inr \<lparr>files = {''resources/icon.png''}, unresolvable = {},
        trace = [ FsExists ''/opt/app/bin/icon.png'',
                  FsExists ''/opt/app/bin/resources/icon.png'',
                  FsExists ''resources/icon.png'',
                  LogMsg INFO ''Using icon from: resources/icon.png'',
                  IconHelper ''resources/icon.png'' ]\<rparr>"
  using SetIcon_single_candidate [of "''resources/icon.png''" "''/opt/app/bin/myprog''"
          "\<lparr>files = {''resources/icon.png''}, unresolvable = {}, trace = []\<rparr>"]
  by (simp add: path_defs status_def)

text \<open>
  C5, as the specification states it, fails. The hint is \<^verbatim>\<open>/srv/app/prog\<close>;
  \<^verbatim>\<open>/srv/app/icon.png\<close> is a symbolic link to itself, there is no
  \<^verbatim>\<open>/srv/app/resources/icon.png\<close>, and \<^verbatim>\<open>resources/icon.png\<close> exists in the working
  directory. The first query throws, so \<^verbatim>\<open>resources/icon.png\<close> is never queried and the
  icon helper is not called.
\<close>

theorem SetIcon_working_directory_resources_counterexample:
  "path_append (parent_path ''/srv/app/prog'') ''icon.png'' = ''/srv/app/icon.png''
   \<and> path_append (path_append (parent_path ''/srv/app/prog'') ''resources'') ''icon.png'' =
       ''/srv/app/resources/icon.png''
   \<and> status \<lparr>files = {''resources/icon.png''}, unresolvable = {''/srv/app/icon.png''},
              trace = []\<rparr> ''/srv/app/icon.png'' \<noteq> Present
   \<and> status \<lparr>files = {''resources/icon.png''}, unresolvable = {''/srv/app/icon.png''},
              trace = []\<rparr> ''/srv/app/resources/icon.png'' \<noteq> Present
   \<and> status \<lparr>files = {''resources/icon.png''}, unresolvable = {''/srv/app/icon.png''},
              trace = []\<rparr> ''resources/icon.png'' = Present
   \<and> SetIcon ''/srv/app/prog''
         \<lparr>files = {''resources/icon.png''}, unresolvable = {''/srv/app/icon.png''},
          trace = []\<rparr> =
       Inl (filesystem_error ''/srv/app/icon.png'',
            \<lparr>files = {''resources/icon.png''}, unresolvable = {''/srv/app/icon.png''},
             trace = [FsExists ''/srv/app/icon.png'']\<rparr>)"
  by (simp add: world_defs path_defs)

text \<open>
  C5, amended. When the existence check answers false for both candidates under the
  parent directory and \<^verbatim>\<open>resources/icon.png\<close> exists, the loop selects
  \<^verbatim>\<open>resources/icon.png\<close> at the third query and the icon helper is called with it.
\<close>

theorem SetIcon_working_directory_resources:
  assumes "status w (path_append (parent_path argv0) ''icon.png'') = NotFound"
      and "status w (path_append (path_append (parent_path argv0) ''resources'') ''icon.png'')
             = NotFound"
      and "status w ''resources/icon.png'' = Present"
  shows "probe_loop (possible_paths argv0) [] w =
           Inr (''resources/icon.png'',
                w\<lparr>trace := trace w @
                  [ FsExists (path_append (parent_path argv0) ''icon.png''),
                    FsExists (path_append (path_append (parent_path argv0) ''resources'')
                                ''icon.png''),
                    FsExists ''resources/icon.png'' ]\<rparr>)
       \<and> SetIcon argv0 w =
           Inr (w\<lparr>trace := trace w @
             [ FsExists (path_append (parent_path argv0) ''icon.png''),
               FsExists (path_append (path_append (parent_path argv0) ''resources'') ''icon.png''),
               FsExists ''resources/icon.png'',
               LogMsg INFO ''Using icon from: resources/icon.png'',
               IconHelper ''resources/icon.png'' ]\<rparr>)"
proof -
  from assms
  have f: "find (\<lambda>p. status w p \<noteq> NotFound) (possible_paths argv0) =
             Some ''resources/icon.png''"
    by (simp add: possible_paths_def)
  have t: "takeWhile (\<lambda>q. status w q = NotFound) (possible_paths argv0) =
             [ path_append (parent_path argv0) ''icon.png'',
               path_append (path_append (parent_path argv0) ''resources'') ''icon.png'' ]"
    using assms by (simp add: possible_paths_def)
  show ?thesis
    using assms(3) by (simp add: probe_loop_find f SetIcon_found [OF f] t)
qed

text \<open>Both working-directory fallbacks exist; the one under \<^verbatim>\<open>resources\<close> comes first.\<close>

theorem SetIcon_working_directory_resources_witness:
  "SetIcon ''/opt/app/bin/myprog''
     \<lparr>files = {''resources/icon.png'', ''icon.png''}, unresolvable = {}, trace = []\<rparr> =
   Inr \<lparr>files = {''resources/icon.png'', ''icon.png''}, unresolvable = {},
        trace = [ FsExists ''/opt/app/bin/icon.png'',
                  FsExists ''/opt/app/bin/resources/icon.png'',
                  FsExists ''resources/icon.png'',
                  LogMsg INFO ''Using icon from: resources/icon.png'',
                  IconHelper ''resources/icon.png'' ]\<rparr>"
  using SetIcon_working_directory_resources [of
          "\<lparr>files = {''resources/icon.png'', ''icon.png''}, unresolvable = {}, trace = []\<rparr>"
          "''/opt/app/bin/myprog''"]
  by (simp add: path_defs status_def)

text \<open>
  C6. What a call performs, and whether it returns or throws, depends on the hint and
  on the filesystem only: two worlds with the same filesystem give the same queries, log
  records and helper calls. A call leaves the filesystem as it is, so a second call in
  succession performs exactly what the first did, and the trace after both is the first
  call's effects twice.
\<close>

theorem SetIcon_deterministic:
  "(files w1 = files w2 \<and> unresolvable w1 = unresolvable w2 \<longrightarrow>
      performed argv0 w1 = performed argv0 w2
      \<and> isl (SetIcon argv0 w1) = isl (SetIcon argv0 w2))
   \<and> files (world_after (SetIcon argv0 w)) = files w
   \<and> unresolvable (world_after (SetIcon argv0 w)) = unresolvable w
   \<and> performed argv0 (world_after (SetIcon argv0 w)) = performed argv0 w
   \<and> isl (SetIcon argv0 (world_after (SetIcon argv0 w))) = isl (SetIcon argv0 w)
   \<and> trace (world_after (SetIcon argv0 (world_after (SetIcon argv0 w)))) =
       trace w @ performed argv0 w @ performed argv0 w"
proof -
  have a: "files w1 = files w2 \<and> unresolvable w1 = unresolvable w2 \<longrightarrow>
      performed argv0 w1 = performed argv0 w2
      \<and> isl (SetIcon argv0 w1) = isl (SetIcon argv0 w2)"
    using performed_status_only thrown_status_only same_filesystem_status by blast
  have b: "files (world_after (SetIcon argv0 w)) = files w"
          "unresolvable (world_after (SetIcon argv0 w)) = unresolvable w"
    by (simp_all add: world_after_SetIcon)
  have s: "status (world_after (SetIcon argv0 w)) = status w"
    by (simp add: world_after_SetIcon)
  have c: "performed argv0 (world_after (SetIcon argv0 w)) = performed argv0 w"
    by (rule performed_status_only [OF s])
  have d: "isl (SetIcon argv0 (world_after (SetIcon argv0 w))) = isl (SetIcon argv0 w)"
    by (rule thrown_status_only [OF s])
  have e: "trace (world_after (SetIcon argv0 (world_after (SetIcon argv0 w)))) =
             trace w @ performed argv0 w @ performed argv0 w"
    by (simp add: world_after_SetIcon [of argv0 "world_after (SetIcon argv0 w)"] c)
       (simp add: world_after_SetIcon)
  from a b c d e show ?thesis by blast
qed

text \<open>Two calls in a row for a bare program name, with \<^verbatim>\<open>icon.png\<close> present.\<close>

theorem SetIcon_deterministic_witness:
  "trace (world_after (SetIcon ''myprog'' (world_after (SetIcon ''myprog''
       \<lparr>files = {''icon.png''}, unresolvable = {}, trace = []\<rparr>)))) =
     [ FsExists ''icon.png'', LogMsg INFO ''Using icon from: icon.png'', IconHelper ''icon.png'',
       FsExists ''icon.png'', LogMsg INFO ''Using icon from: icon.png'', IconHelper ''icon.png'' ]"
  using SetIcon_deterministic [of "\<lparr>files = {''icon.png''}, unresolvable = {}, trace = []\<rparr>"
          "\<lparr>files = {''icon.png''}, unresolvable = {}, trace = []\<rparr>" "''myprog''"
          "\<lparr>files = {''icon.png''}, unresolvable = {}, trace = []\<rparr>"]
  by (simp add: performed_def world_after_def world_defs path_defs)

text \<open>
  C7. A call leaves the filesystem as it found it, whether it returns or throws. Its
  effects are a run of existence queries followed by effects that are not filesystem
  operations; the queried paths are an initial segment of the candidate list, hence at
  most four and all of them candidates. What the icon helper does with the path it is
  given is the helper's own business; the call of it appears in the trace as such.
\<close>

theorem SetIcon_filesystem_frame:
  "files (world_after (SetIcon argv0 w)) = files w
   \<and> unresolvable (world_after (SetIcon argv0 w)) = unresolvable w
   \<and> (\<exists>qs rest. trace (world_after (SetIcon argv0 w)) = trace w @ map FsExists qs @ rest
         \<and> performed argv0 w = map FsExists qs @ rest
         \<and> prefix qs (possible_paths argv0) \<and> length qs \<le> 4
         \<and> (\<forall>e\<in>set rest. \<forall>p. e \<noteq> FsExists p))"
proof -
  have frame: "files (world_after (SetIcon argv0 w)) = files w"
              "unresolvable (world_after (SetIcon argv0 w)) = unresolvable w"
              "trace (world_after (SetIcon argv0 w)) = trace w @ performed argv0 w"
    by (simp_all add: world_after_SetIcon)
  have len: "length (possible_paths argv0) = 4"
    by (simp add: possible_paths_def)
  have "\<exists>qs rest. performed argv0 w = map FsExists qs @ rest
         \<and> prefix qs (possible_paths argv0) \<and> length qs \<le> 4
         \<and> (\<forall>e\<in>set rest. \<forall>p. e \<noteq> FsExists p)"
  proof (cases "find (\<lambda>p. status w p \<noteq> NotFound) (possible_paths argv0)")
    case None
    let ?rest = "[LogMsg WARNING ''Icon file not found in any of the expected locations'']"
    have "performed argv0 w = map FsExists (possible_paths argv0) @ ?rest"
      using None by (simp add: performed_cases)
    moreover have "\<forall>e\<in>set ?rest. \<forall>p. e \<noteq> FsExists p"
      by simp
    ultimately show ?thesis
      using len prefix_order.order_refl by (metis order_refl)
  next
    case (Some p)
    let ?qs = "takeWhile (\<lambda>q. status w q = NotFound) (possible_paths argv0) @ [p]"
    let ?rest = "if status w p = Present
                 then [LogMsg INFO (''Using icon from: '' @ p), IconHelper p] else []"
    have "performed argv0 w = map FsExists ?qs @ ?rest"
      using Some by (simp add: performed_cases)
    moreover have pre: "prefix ?qs (possible_paths argv0)"
      using find_Some_prefix [OF Some] by simp
    moreover have "length ?qs \<le> 4"
      using prefix_length_le [OF pre] len by simp
    moreover have "\<forall>e\<in>set ?rest. \<forall>p. e \<noteq> FsExists p"
      by auto
    ultimately show ?thesis
      by blast
  qed
  with frame show ?thesis
    by auto
qed

text \<open>The files before and after a call that finds the third candidate.\<close>

theorem SetIcon_filesystem_frame_witness:
  "files (world_after (SetIcon ''/opt/app/bin/myprog''
            \<lparr>files = {''resources/icon.png''}, unresolvable = {}, trace = []\<rparr>)) =
     {''resources/icon.png''}"
  using SetIcon_filesystem_frame [of "''/opt/app/bin/myprog''"
          "\<lparr>files = {''resources/icon.png''}, unresolvable = {}, trace = []\<rparr>"]
  by simp

text \<open>
  C8. The two examples of the specification. For the hint \<^verbatim>\<open>/opt/app/bin/myprog\<close>, with
  \<^verbatim>\<open>/opt/app/bin/icon.png\<close> existing, the icon helper is called with
  \<^verbatim>\<open>/opt/app/bin/icon.png\<close>. For the hint \<^verbatim>\<open>myprog\<close>, with \<^verbatim>\<open>icon.png\<close> existing and
  \<^verbatim>\<open>resources/icon.png\<close> not, the icon helper is called with \<^verbatim>\<open>icon.png\<close>.
\<close>

theorem SetIcon_examples:
  "(status w ''/opt/app/bin/icon.png'' = Present \<longrightarrow>
      SetIcon ''/opt/app/bin/myprog'' w =
        Inr (w\<lparr>trace := trace w @
          [ FsExists ''/opt/app/bin/icon.png'',
            LogMsg INFO ''Using icon from: /opt/app/bin/icon.png'',
            IconHelper ''/opt/app/bin/icon.png'' ]\<rparr>))
   \<and> (status w ''icon.png'' = Present \<and> status w ''resources/icon.png'' \<noteq> Present \<longrightarrow>
      SetIcon ''myprog'' w =
        Inr (w\<lparr>trace := trace w @
          [ FsExists ''icon.png'',
            LogMsg INFO ''Using icon from: icon.png'',
            IconHelper ''icon.png'' ]\<rparr>))"
proof -
  have one: "possible_paths ''/opt/app/bin/myprog'' =
     [ ''/opt/app/bin/icon.png'', ''/opt/app/bin/resources/icon.png'',
       ''resources/icon.png'', ''icon.png'' ]"
    by (simp add: path_defs)
  have two: "possible_paths ''myprog'' =
     [''icon.png'', ''resources/icon.png'', ''resources/icon.png'', ''icon.png'']"
    by (simp add: path_defs)
  show ?thesis
    by (simp add: SetIcon_def one two fs_exists_def LOG_def SetIconHelper_def)
qed

text \<open>Each example in the smallest filesystem that satisfies its condition.\<close>

theorem SetIcon_examples_witness:
  "SetIcon ''/opt/app/bin/myprog''
     \<lparr>files = {''/opt/app/bin/icon.png''}, unresolvable = {}, trace = []\<rparr> =
     Inr \<lparr>files = {''/opt/app/bin/icon.png''}, unresolvable = {},
          trace = [ FsExists ''/opt/app/bin/icon.png'',
                    LogMsg INFO ''Using icon from: /opt/app/bin/icon.png'',
                    IconHelper ''/opt/app/bin/icon.png'' ]\<rparr>
   \<and> SetIcon ''myprog'' \<lparr>files = {''icon.png''}, unresolvable = {}, trace = []\<rparr> =
     Inr \<lparr>files = {''icon.png''}, unresolvable = {},
          trace = [ FsExists ''icon.png'',
                    LogMsg INFO ''Using icon from: icon.png'',
                    IconHelper ''icon.png'' ]\<rparr>"
  using SetIcon_examples [of "\<lparr>files = {''/opt/app/bin/icon.png''}, unresolvable = {}, trace = []\<rparr>"]
        SetIcon_examples [of "\<lparr>files = {''icon.png''}, unresolvable = {}, trace = []\<rparr>"]
  by (simp add: status_def)

text \<open>
  C9. For a hint without a directory component the parent directory is empty, the first
  candidate collapses to \<^verbatim>\<open>icon.png\<close> and the second to \<^verbatim>\<open>resources/icon.png\<close>, so the
  list is \<^verbatim>\<open>icon.png\<close>, \<^verbatim>\<open>resources/icon.png\<close>, \<^verbatim>\<open>resources/icon.png\<close>, \<^verbatim>\<open>icon.png\<close>.
  The working-directory \<^verbatim>\<open>icon.png\<close> is therefore queried first and wins whenever it
  exists, also over an existing \<^verbatim>\<open>resources/icon.png\<close>, which is reached only when the
  query for \<^verbatim>\<open>icon.png\<close> has answered false.
\<close>

theorem SetIcon_bare_name_order:
  assumes "CHR ''/'' \<notin> set argv0"
  shows "parent_path argv0 = []
       \<and> possible_paths argv0 =
           [''icon.png'', ''resources/icon.png'', ''resources/icon.png'', ''icon.png'']
       \<and> (status w ''icon.png'' = Present \<longrightarrow>
            SetIcon argv0 w =
              Inr (w\<lparr>trace := trace w @
                [ FsExists ''icon.png'',
                  LogMsg INFO ''Using icon from: icon.png'',
                  IconHelper ''icon.png'' ]\<rparr>))
       \<and> (status w ''icon.png'' = NotFound \<and> status w ''resources/icon.png'' = Present \<longrightarrow>
            SetIcon argv0 w =
              Inr (w\<lparr>trace := trace w @
                [ FsExists ''icon.png'', FsExists ''resources/icon.png'',
                  LogMsg INFO ''Using icon from: resources/icon.png'',
                  IconHelper ''resources/icon.png'' ]\<rparr>))"
proof -
  have d: "parent_path argv0 = []"
    using assms by (rule no_sep_parent_path)
  then have ps: "possible_paths argv0 =
      [''icon.png'', ''resources/icon.png'', ''resources/icon.png'', ''icon.png'']"
    by (simp add: possible_paths_def path_append_def has_filename_def filename_def
          has_root_directory_def is_dir_sep_def)
  have run: "SetIcon argv0 w =
      (case probe_loop [''icon.png'', ''resources/icon.png'', ''resources/icon.png'',
                        ''icon.png''] [] w of
         Inl thrown \<Rightarrow> Inl thrown
       | Inr (icon_path, w') \<Rightarrow>
           if icon_path = []
           then Inr (LOG WARNING ''Icon file not found in any of the expected locations'' w')
           else Inr (SetIconHelper icon_path (LOG INFO (''Using icon from: '' @ icon_path) w')))"
    by (simp add: SetIcon_def ps)
  from d ps show ?thesis
    by (simp add: run fs_exists_def LOG_def SetIconHelper_def)
qed

text \<open>Both working-directory files exist and the hint is a bare name.\<close>

theorem SetIcon_bare_name_order_witness:
  "possible_paths ''myprog'' =
     [''icon.png'', ''resources/icon.png'', ''resources/icon.png'', ''icon.png'']
   \<and> SetIcon ''myprog''
        \<lparr>files = {''icon.png'', ''resources/icon.png''}, unresolvable = {}, trace = []\<rparr> =
     Inr \<lparr>files = {''icon.png'', ''resources/icon.png''}, unresolvable = {},
          trace = [ FsExists ''icon.png'',
                    LogMsg INFO ''Using icon from: icon.png'',
                    IconHelper ''icon.png'' ]\<rparr>"
  using SetIcon_bare_name_order [of "''myprog''"
          "\<lparr>files = {''icon.png'', ''resources/icon.png''}, unresolvable = {}, trace = []\<rparr>"]
  by (simp add: status_def)

text \<open>
  C10. The empty string is a sound sentinel. When the loop has run to its end or to a
  hit, \<^verbatim>\<open>icon_path\<close> is empty if and only if no candidate exists, because every candidate
  ends in \<^verbatim>\<open>icon.png\<close> and so is not empty; and the loop does get there whenever no query
  fails. Hence whenever the icon helper is called, its argument is the non-empty path the
  loop selected, one of the candidates, and it existed when it was queried.
\<close>

theorem SetIcon_sentinel_sound:
  "(\<forall>icon_path w'. probe_loop (possible_paths argv0) [] w = Inr (icon_path, w') \<longrightarrow>
      (icon_path = [] \<longleftrightarrow> (\<forall>p\<in>set (possible_paths argv0). status w p \<noteq> Present)))
   \<and> ((\<forall>p\<in>set (possible_paths argv0). status w p \<noteq> StatusFailure) \<longrightarrow>
        (\<exists>icon_path w'. probe_loop (possible_paths argv0) [] w = Inr (icon_path, w')))
   \<and> (\<forall>p\<in>set (possible_paths argv0). suffix ''icon.png'' p \<and> p \<noteq> [])
   \<and> (\<forall>p. IconHelper p \<in> set (performed argv0 w) \<longrightarrow>
          p \<noteq> [] \<and> p \<in> set (possible_paths argv0) \<and> status w p = Present
          \<and> (\<exists>w'. probe_loop (possible_paths argv0) [] w = Inr (p, w')))"
proof (cases "find (\<lambda>p. status w p \<noteq> NotFound) (possible_paths argv0)")
  case None
  then have "\<forall>p\<in>set (possible_paths argv0). status w p = NotFound"
    by (simp add: find_None_iff)
  with None show ?thesis
    by (auto simp: probe_loop_find performed_cases possible_paths_suffix
          possible_paths_nonempty)
next
  case (Some q)
  then have q: "q \<in> set (possible_paths argv0)" "status w q \<noteq> NotFound"
    by (auto simp: find_Some_iff)
  then have ne: "q \<noteq> []" by (simp add: possible_paths_nonempty)
  show ?thesis
  proof (cases "status w q = Present")
    case True
    with Some q ne show ?thesis
      by (auto simp: probe_loop_find performed_cases possible_paths_suffix
            possible_paths_nonempty)
  next
    case False
    with q have "status w q = StatusFailure"
      by (cases "status w q") auto
    with Some q ne False show ?thesis
      by (auto simp: probe_loop_find performed_cases possible_paths_suffix
            possible_paths_nonempty)
  qed
qed

text \<open>The loop's result with only the last candidate present, and with none.\<close>

theorem SetIcon_sentinel_sound_witness:
  "probe_loop (possible_paths ''/opt/app/bin/myprog'') []
      \<lparr>files = {''icon.png''}, unresolvable = {}, trace = []\<rparr> =
     Inr (''icon.png'',
          \<lparr>files = {''icon.png''}, unresolvable = {},
           trace = [ FsExists ''/opt/app/bin/icon.png'',
                     FsExists ''/opt/app/bin/resources/icon.png'',
                     FsExists ''resources/icon.png'', FsExists ''icon.png'' ]\<rparr>)
   \<and> probe_loop (possible_paths ''/opt/app/bin/myprog'') []
      \<lparr>files = {}, unresolvable = {}, trace = []\<rparr> =
     Inr ([],
          \<lparr>files = {}, unresolvable = {},
           trace = [ FsExists ''/opt/app/bin/icon.png'',
                     FsExists ''/opt/app/bin/resources/icon.png'',
                     FsExists ''resources/icon.png'', FsExists ''icon.png'' ]\<rparr>)"
  using SetIcon_sentinel_sound [of "''/opt/app/bin/myprog''"
          "\<lparr>files = {''icon.png''}, unresolvable = {}, trace = []\<rparr>"]
        SetIcon_sentinel_sound [of "''/opt/app/bin/myprog''"
          "\<lparr>files = {}, unresolvable = {}, trace = []\<rparr>"]
  by (simp add: fs_exists_def status_def path_defs)

end
